theory Spec2Isabelle
  imports Complex_Main
begin

section \<open>Supervised contrastive loss (losses.py)\<close>

text \<open>
  A shallow embedding of \<^verbatim>\<open>SupConLoss\<close> from \<^verbatim>\<open>losses.py\<close>.

  Numbers are exact reals. A value the floating-point code would compute as
  \<^verbatim>\<open>inf\<close>, \<^verbatim>\<open>-inf\<close> or \<^verbatim>\<open>nan\<close> is \<open>None\<close>: division by zero and the
  logarithm of a non-positive number give \<open>None\<close>, and every operation with a \<open>None\<close>
  operand gives \<open>None\<close>. Divisors are always finite in \<^verbatim>\<open>forward\<close> (the temperature, a
  row sum of the mask, an element count), which is why \<open>fdiv\<close> takes a real divisor.
  Rounding, overflow and underflow are not modelled. With a temperature of 0 every logit is
  non-finite; floating point then has \<^verbatim>\<open>exp(-inf) = 0\<close> for single entries where the
  model has \<open>None\<close>, but every row holds a \<^verbatim>\<open>nan\<close> as well, so the row sums and the
  loss are non-finite in both.

  The arguments are the features (any shape), the entries of the labels tensor, and a
  mask of the documented shape \<open>[bsz, bsz]\<close>. What torch does with a mask of another
  shape is outside the model.
\<close>

subsection \<open>Errors\<close>

text \<open>
  Every \<^verbatim>\<open>raise\<close> of \<^verbatim>\<open>forward\<close> is a \<^verbatim>\<open>ValueError\<close>; the constructors
  tell the three messages apart:
  \<^item> \<open>ShapeError\<close>: \<^verbatim>\<open>`features` needs to be [bsz, n_views, ...]\<close> (line 39) and
    \<^verbatim>\<open>Num of labels does not match num of features\<close> (line 52);
  \<^item> \<open>ArgumentConflictError\<close>: \<^verbatim>\<open>Cannot define both `labels` and `mask`\<close> (line 46);
  \<^item> \<open>InvalidConfigurationError\<close>: \<^verbatim>\<open>Unknown mode\<close> (line 66).
  \<open>LibraryError\<close> is an exception raised inside a torch primitive, and
  \<open>ZeroDivisionError\<close> is Python's own, for the float division of line 95.
\<close>

datatype error =
    ShapeError
  | ArgumentConflictError
  | InvalidConfigurationError
  | LibraryError
  | ZeroDivisionError

definition then_do :: "error + 'a \<Rightarrow> ('a \<Rightarrow> error + 'b) \<Rightarrow> error + 'b" where
  "then_do r f = (case r of Inl e \<Rightarrow> Inl e | Inr x \<Rightarrow> f x)"

subsection \<open>Arithmetic with non-finite results\<close>

type_synonym fval = "real option"

definition fadd :: "fval \<Rightarrow> fval \<Rightarrow> fval" where
  "fadd a b = (case a of None \<Rightarrow> None | Some x \<Rightarrow> (case b of None \<Rightarrow> None | Some y \<Rightarrow> Some (x + y)))"

definition fsub :: "fval \<Rightarrow> fval \<Rightarrow> fval" where
  "fsub a b = (case a of None \<Rightarrow> None | Some x \<Rightarrow> (case b of None \<Rightarrow> None | Some y \<Rightarrow> Some (x - y)))"

definition fmul :: "fval \<Rightarrow> fval \<Rightarrow> fval" where
  "fmul a b = (case a of None \<Rightarrow> None | Some x \<Rightarrow> (case b of None \<Rightarrow> None | Some y \<Rightarrow> Some (x * y)))"

definition fmax :: "fval \<Rightarrow> fval \<Rightarrow> fval" where
  "fmax a b = (case a of None \<Rightarrow> None | Some x \<Rightarrow> (case b of None \<Rightarrow> None | Some y \<Rightarrow> Some (max x y)))"

definition fdiv :: "fval \<Rightarrow> real \<Rightarrow> fval" where
  "fdiv a d = (if d = 0 then None else map_option (\<lambda>x. x / d) a)"

definition fexp :: "fval \<Rightarrow> fval" where
  "fexp a = map_option exp a"

definition flog :: "fval \<Rightarrow> fval" where
  "flog a = (case a of None \<Rightarrow> None | Some x \<Rightarrow> if 0 < x then Some (ln x) else None)"

definition fsum :: "fval list \<Rightarrow> fval" where
  "fsum xs = foldr fadd xs (Some 0)"

subsection \<open>Tensors and the torch primitives used by forward\<close>

text \<open>
  The \<^verbatim>\<open>features\<close> argument is a contiguous tensor: its shape and its entries in
  row-major order. Matrices built inside \<^verbatim>\<open>forward\<close> are lists of rows.
\<close>

record tensor =
  shape :: "nat list"
  entries :: "real list"

text \<open>\<^verbatim>\<open>features.view(features.shape[0], features.shape[1], -1)\<close>. torch refuses to
  infer the \<^verbatim>\<open>-1\<close> when the product of the given sizes is 0.\<close>

definition torch_view3 :: "tensor \<Rightarrow> error + tensor" where
  "torch_view3 t =
     (let b = shape t ! 0; v = shape t ! 1 in
      if b * v = 0 then Inl LibraryError
      else Inr \<lparr>shape = [b, v, prod_list (shape t) div (b * v)], entries = entries t\<rparr>)"

text \<open>\<^verbatim>\<open>t[b, v, :]\<close> of a tensor of rank 3.\<close>

definition vec_at :: "tensor \<Rightarrow> nat \<Rightarrow> nat \<Rightarrow> real list" where
  "vec_at t b v =
     (let d = shape t ! 2 in take d (drop ((b * (shape t ! 1) + v) * d) (entries t)))"

text \<open>\<^verbatim>\<open>torch.unbind(t, dim=1)\<close>: one \<open>[B, D]\<close> matrix per view.\<close>

definition torch_unbind1 :: "tensor \<Rightarrow> real list list list" where
  "torch_unbind1 t = map (\<lambda>v. map (\<lambda>b. vec_at t b v) [0..<shape t ! 0]) [0..<shape t ! 1]"

text \<open>\<^verbatim>\<open>torch.cat(ts, dim=0)\<close>, which raises on an empty sequence.\<close>

definition torch_cat0 :: "'a list list \<Rightarrow> error + 'a list" where
  "torch_cat0 ts = (if ts = [] then Inl LibraryError else Inr (concat ts))"

text \<open>\<^verbatim>\<open>t[:, 0]\<close>; reached only after \<open>torch_cat0\<close> succeeded, so view 0 exists.\<close>

definition select_view0 :: "tensor \<Rightarrow> real list list" where
  "select_view0 t = map (\<lambda>b. vec_at t b 0) [0..<shape t ! 0]"

definition dot :: "real list \<Rightarrow> real list \<Rightarrow> real" where
  "dot x y = sum_list (map2 (*) x y)"

text \<open>\<^verbatim>\<open>torch.matmul(a, c.T)\<close>.\<close>

definition torch_matmul_T :: "real list list \<Rightarrow> real list list \<Rightarrow> real list list" where
  "torch_matmul_T a c = map (\<lambda>x. map (\<lambda>y. dot x y) c) a"

text \<open>\<^verbatim>\<open>torch.div(m, s)\<close> by a Python number: no exception, a zero divisor gives
  non-finite entries.\<close>

definition torch_div :: "real list list \<Rightarrow> real \<Rightarrow> fval list list" where
  "torch_div m s = map (map (\<lambda>x. fdiv (Some x) s)) m"

definition row_max :: "fval list \<Rightarrow> fval" where
  "row_max xs = (case xs of [] \<Rightarrow> None | x # ys \<Rightarrow> fold fmax ys x)"

text \<open>\<^verbatim>\<open>torch.max(m, dim=1, keepdim=True)\<close> (the values); \<open>ncols\<close> is the size of
  dimension 1, and a reduction over a dimension of size 0 raises.\<close>

definition torch_max_dim1 :: "nat \<Rightarrow> fval list list \<Rightarrow> error + fval list" where
  "torch_max_dim1 ncols m = (if ncols = 0 then Inl LibraryError else Inr (map row_max m))"

text \<open>\<^verbatim>\<open>m - col\<close> with \<open>col\<close> of shape \<open>[rows, 1]\<close>.\<close>

definition sub_keepdim :: "fval list list \<Rightarrow> fval list \<Rightarrow> fval list list" where
  "sub_keepdim m col = map2 (\<lambda>row c. map (\<lambda>x. fsub x c) row) m col"

text \<open>\<^verbatim>\<open>torch.eye(n)\<close>.\<close>

definition torch_eye :: "nat \<Rightarrow> real list list" where
  "torch_eye n = map (\<lambda>i. map (\<lambda>j. if i = j then 1 else 0) [0..<n]) [0..<n]"

text \<open>\<^verbatim>\<open>torch.eq(col, col.T).float()\<close> for a column \<open>col\<close> of shape \<open>[n, 1]\<close>.\<close>

definition torch_eq_outer :: "int list \<Rightarrow> real list list" where
  "torch_eq_outer col = map (\<lambda>a. map (\<lambda>b. if a = b then 1 else 0) col) col"

text \<open>\<^verbatim>\<open>m.repeat(r, c)\<close>.\<close>

definition torch_repeat :: "'a list list \<Rightarrow> nat \<Rightarrow> nat \<Rightarrow> 'a list list" where
  "torch_repeat m r c = concat (replicate r (map (\<lambda>row. concat (replicate c row)) m))"

definition torch_ones_like :: "real list list \<Rightarrow> real list list" where
  "torch_ones_like m = map (map (\<lambda>_. 1)) m"

text \<open>\<^verbatim>\<open>torch.arange(n).view(-1, 1)\<close>.\<close>

definition arange_col :: "nat \<Rightarrow> nat list list" where
  "arange_col n = map (\<lambda>i. [i]) [0..<n]"

text \<open>\<^verbatim>\<open>torch.scatter(input, 1, index, value)\<close>: \<open>out[i][index[i][j]] = value\<close>. The
  index may not have more rows than the input, and every index must be a column
  of the input.\<close>

definition torch_scatter1 :: "real list list \<Rightarrow> nat list list \<Rightarrow> real \<Rightarrow> error + real list list" where
  "torch_scatter1 input index val =
     (if length index \<le> length input
         \<and> list_all (\<lambda>(row, ks). list_all (\<lambda>k. k < length row) ks) (zip input index)
      then Inr (map (\<lambda>i. if i < length index
                          then fold (\<lambda>k row. row[k := val]) (index ! i) (input ! i)
                          else input ! i) [0..<length input])
      else Inl LibraryError)"

text \<open>Elementwise product of two matrices of one shape.\<close>

definition mul2 :: "real list list \<Rightarrow> real list list \<Rightarrow> real list list" where
  "mul2 a b = map2 (map2 (*)) a b"

subsection \<open>The loss object\<close>

record SupConLoss =
  temperature :: real
  contrast_mode :: string
  base_temperature :: real

text \<open>\<^verbatim>\<open>__init__\<close> (lines 14-19) stores its three arguments and checks nothing.\<close>

definition SupConLoss_init :: "real \<Rightarrow> string \<Rightarrow> real \<Rightarrow> error + SupConLoss" where
  "SupConLoss_init temperature_arg contrast_mode_arg base_temperature_arg =
     Inr \<lparr>temperature = temperature_arg, contrast_mode = contrast_mode_arg,
          base_temperature = base_temperature_arg\<rparr>"

subsection \<open>forward, lines 38-85: checks, logits and masks\<close>

text \<open>
  Lines 38-42. A tensor of rank above 3 is flattened to \<open>[bsz, n_views, -1]\<close>; one of
  rank 3 is used as it is.
\<close>

definition check_features :: "tensor \<Rightarrow> error + tensor" where
  "check_features features =
     (if length (shape features) < 3 then Inl ShapeError
      else if length (shape features) > 3 then torch_view3 features
      else Inr features)"

text \<open>
  Lines 45-55. \<open>labels\<close> holds the entries of the labels tensor, which line 50
  reshapes to a column whatever its shape was. \<open>mask_arg\<close> is the caller's mask of
  shape \<open>[bsz, bsz]\<close> (the docstring's contract), given by its entries \<open>mask_arg i j\<close>.
\<close>

definition resolve_mask ::
  "nat \<Rightarrow> int list option \<Rightarrow> (nat \<Rightarrow> nat \<Rightarrow> real) option \<Rightarrow> error + real list list" where
  "resolve_mask batch_size labels mask_arg =
     (if labels \<noteq> None \<and> mask_arg \<noteq> None then Inl ArgumentConflictError
      else if labels = None \<and> mask_arg = None then Inr (torch_eye batch_size)
      else if labels \<noteq> None then
        (if length (the labels) \<noteq> batch_size then Inl ShapeError
         else Inr (torch_eq_outer (the labels)))
      else Inr (map (\<lambda>i. map (\<lambda>j. (the mask_arg) i j) [0..<batch_size]) [0..<batch_size]))"

text \<open>Lines 59-66: the anchor features and the anchor count.\<close>

definition select_anchor ::
  "string \<Rightarrow> tensor \<Rightarrow> real list list \<Rightarrow> nat \<Rightarrow> error + (real list list \<times> nat)" where
  "select_anchor mode features contrast_feature contrast_count =
     (if mode = ''one'' then Inr (select_view0 features, 1)
      else if mode = ''all'' then Inr (contrast_feature, contrast_count)
      else Inl InvalidConfigurationError)"

text \<open>The local variables after line 85. The source assigns \<^verbatim>\<open>mask\<close> three times:
  \<open>mask_pretile\<close> (lines 48-55), \<open>mask_tiled\<close> (line 77) and \<open>mask_final\<close> (line 85).\<close>

record locals =
  batch_size :: nat
  contrast_count :: nat
  anchor_count :: nat
  mask_pretile :: "real list list"
  anchor_dot_contrast :: "fval list list"
  logits_max :: "fval list"
  logits :: "fval list list"
  mask_tiled :: "real list list"
  logits_mask :: "real list list"
  mask_final :: "real list list"

definition forward_setup ::
  "SupConLoss \<Rightarrow> tensor \<Rightarrow> int list option \<Rightarrow> (nat \<Rightarrow> nat \<Rightarrow> real) option \<Rightarrow> error + locals" where
  "forward_setup self features_arg labels mask_arg =
     then_do (check_features features_arg) (\<lambda>features.
     then_do (resolve_mask (shape features ! 0) labels mask_arg) (\<lambda>mask0.
     then_do (torch_cat0 (torch_unbind1 features)) (\<lambda>contrast_feature.
     then_do (select_anchor (contrast_mode self) features contrast_feature (shape features ! 1))
       (\<lambda>(anchor_feature, n_anchor).
     then_do (torch_max_dim1 (length contrast_feature)
                (torch_div (torch_matmul_T anchor_feature contrast_feature) (temperature self)))
       (\<lambda>row_maxima.
     then_do (torch_scatter1
                (torch_ones_like (torch_repeat mask0 n_anchor (shape features ! 1)))
                (arange_col (shape features ! 0 * n_anchor)) 0)
       (\<lambda>self_mask.
     Inr \<lparr>batch_size = shape features ! 0,
          contrast_count = shape features ! 1,
          anchor_count = n_anchor,
          mask_pretile = mask0,
          anchor_dot_contrast =
            torch_div (torch_matmul_T anchor_feature contrast_feature) (temperature self),
          logits_max = row_maxima,
          logits =
            sub_keepdim
              (torch_div (torch_matmul_T anchor_feature contrast_feature) (temperature self))
              row_maxima,
          mask_tiled = torch_repeat mask0 n_anchor (shape features ! 1),
          logits_mask = self_mask,
          mask_final = mul2 (torch_repeat mask0 n_anchor (shape features ! 1)) self_mask\<rparr>))))))"

subsection \<open>forward, lines 88-98: log-probabilities and the loss\<close>

text \<open>Line 88: \<^verbatim>\<open>torch.exp(logits) * logits_mask\<close>.\<close>

definition exp_logits_of :: "fval list list \<Rightarrow> real list list \<Rightarrow> fval list list" where
  "exp_logits_of lg lm = map2 (map2 (\<lambda>x l. fmul (fexp x) (Some l))) lg lm"

text \<open>Line 89: \<^verbatim>\<open>logits - torch.log(exp_logits.sum(1, keepdim=True))\<close>.\<close>

definition log_prob_of :: "fval list list \<Rightarrow> real list list \<Rightarrow> fval list list" where
  "log_prob_of lg lm =
     map2 (\<lambda>row e. map (\<lambda>x. fsub x (flog (fsum e))) row) lg (exp_logits_of lg lm)"

text \<open>Line 92: \<^verbatim>\<open>(mask * log_prob).sum(1) / mask.sum(1)\<close>.\<close>

definition mean_log_prob_pos_of :: "real list list \<Rightarrow> fval list list \<Rightarrow> fval list" where
  "mean_log_prob_pos_of m lp =
     map2 (\<lambda>mrow lprow. fdiv (fsum (map2 (\<lambda>w x. fmul (Some w) x) mrow lprow)) (sum_list mrow))
       m lp"

text \<open>
  Lines 95-98. \<^verbatim>\<open>self.temperature / self.base_temperature\<close> divides two Python
  floats, which raises \<^verbatim>\<open>ZeroDivisionError\<close> on a zero divisor. \<^verbatim>\<open>view\<close> needs
  \<open>anchor_count * batch_size\<close> elements, and \<^verbatim>\<open>mean\<close> is the sum over the count.
\<close>

definition forward_reduce :: "SupConLoss \<Rightarrow> locals \<Rightarrow> error + fval" where
  "forward_reduce self st =
     (let mean_log_prob_pos =
            mean_log_prob_pos_of (mask_final st) (log_prob_of (logits st) (logits_mask st))
      in if base_temperature self = 0 then Inl ZeroDivisionError
         else let loss = map (fmul (Some (- (temperature self / base_temperature self))))
                           mean_log_prob_pos
              in if length loss \<noteq> anchor_count st * batch_size st then Inl LibraryError
                 else Inr (fdiv (fsum loss) (real (length loss))))"

definition forward ::
  "SupConLoss \<Rightarrow> tensor \<Rightarrow> int list option \<Rightarrow> (nat \<Rightarrow> nat \<Rightarrow> real) option \<Rightarrow> error + fval" where
  "forward self features labels mask_arg =
     then_do (forward_setup self features labels mask_arg) (forward_reduce self)"

text \<open>
  For the comparison with line 74 left out: the same computation with the raw
  \<open>anchor_dot_contrast\<close> in place of the shifted logits. The row maxima of line 73 are
  still computed; they are just not subtracted.
\<close>

definition forward_unshifted ::
  "SupConLoss \<Rightarrow> tensor \<Rightarrow> int list option \<Rightarrow> (nat \<Rightarrow> nat \<Rightarrow> real) option \<Rightarrow> error + fval" where
  "forward_unshifted self features labels mask_arg =
     then_do (forward_setup self features labels mask_arg)
       (\<lambda>st. forward_reduce self (st\<lparr>logits := anchor_dot_contrast st\<rparr>))"

subsection \<open>Conditions on a call, and example inputs\<close>

text \<open>The checks of lines 38-42 pass: rank at least 3, and for a rank above 3 the
  \<^verbatim>\<open>view\<close> of line 42 succeeds.\<close>

definition flattens :: "tensor \<Rightarrow> bool" where
  "flattens features =
     (3 \<le> length (shape features) \<and>
      (3 < length (shape features) \<longrightarrow> shape features ! 0 * (shape features ! 1) \<noteq> 0))"

text \<open>The branch of lines 45-55 raises nothing: not both arguments, and as many labels
  as samples.\<close>

definition resolves :: "nat \<Rightarrow> int list option \<Rightarrow> (nat \<Rightarrow> nat \<Rightarrow> real) option \<Rightarrow> bool" where
  "resolves B labels mask_arg =
     (\<not> (labels \<noteq> None \<and> mask_arg \<noteq> None) \<and> (labels \<noteq> None \<longrightarrow> length (the labels) = B))"

text \<open>The call gets past every check of lines 38-85: the two above, at least one view,
  a known mode and a non-empty batch.\<close>

definition accepted ::
  "SupConLoss \<Rightarrow> tensor \<Rightarrow> int list option \<Rightarrow> (nat \<Rightarrow> nat \<Rightarrow> real) option \<Rightarrow> bool" where
  "accepted self features labels mask_arg =
     (flattens features \<and> resolves (shape features ! 0) labels mask_arg
      \<and> 0 < shape features ! 1
      \<and> (contrast_mode self = ''one'' \<or> contrast_mode self = ''all'')
      \<and> 0 < shape features ! 0)"

text \<open>Two samples with two views each, in three dimensions.\<close>

definition ex_features :: tensor where
  "ex_features = \<lparr>shape = [2, 2, 3], entries = [1, 0, 0,  1, 0, 0,  0, 1, 0,  0, 1, 0]\<rparr>"

text \<open>Two samples with a single view each.\<close>

definition ex_single_view :: tensor where
  "ex_single_view = \<lparr>shape = [2, 1, 3], entries = [1, 0, 0,  0, 1, 0]\<rparr>"

text \<open>A tensor of rank 2.\<close>

definition ex_rank2 :: tensor where
  "ex_rank2 = \<lparr>shape = [2, 3], entries = [1, 0, 0,  0, 1, 0]\<rparr>"

definition ex_loss :: SupConLoss where
  "ex_loss = \<lparr>temperature = 1, contrast_mode = ''all'', base_temperature = 1\<rparr>"

definition ex_bad_mode :: SupConLoss where
  "ex_bad_mode = \<lparr>temperature = 1, contrast_mode = ''two'', base_temperature = 1\<rparr>"

text \<open>An explicit mask that marks every pair.\<close>

definition ex_mask :: "nat \<Rightarrow> nat \<Rightarrow> real" where
  "ex_mask i j = 1"

section \<open>Properties\<close>

subsection \<open>Auxiliary facts\<close>

lemma then_do_Inl [simp]: "then_do (Inl e) f = Inl e"
  by (simp add: then_do_def)

lemma then_do_Inr [simp]: "then_do (Inr x) f = f x"
  by (simp add: then_do_def)

lemma check_features_cases:
  "check_features f =
     (if length (shape f) < 3 then Inl ShapeError
      else if \<not> flattens f then Inl LibraryError
      else Inr (if length (shape f) = 3 then f
                else \<lparr>shape = [shape f ! 0, shape f ! 1,
                        prod_list (shape f) div (shape f ! 0 * (shape f ! 1))],
                       entries = entries f\<rparr>))"
  by (auto simp: check_features_def flattens_def torch_view3_def Let_def)

lemma check_features_dims:
  assumes "check_features f = Inr g"
  shows "shape g ! 0 = shape f ! 0" and "shape g ! 1 = shape f ! 1" and "length (shape g) = 3"
    and "flattens f"
  using assms by (auto simp: check_features_cases split: if_splits)

lemma forward_reduce_errors:
  "forward_reduce self st \<noteq> Inl ShapeError"
  "forward_reduce self st \<noteq> Inl ArgumentConflictError"
  "forward_reduce self st \<noteq> Inl InvalidConfigurationError"
  by (simp_all add: forward_reduce_def Let_def)

lemma length_concat_unbind:
  "length (concat (torch_unbind1 g)) = shape g ! 1 * (shape g ! 0)"
  by (simp add: torch_unbind1_def length_concat o_def sum_list_triv)

lemma resolve_mask_shape:
  assumes "resolve_mask B l m = Inr mask0"
  shows "length mask0 = B" and "\<forall>row\<in>set mask0. length row = B"
  using assms
  by (auto simp: resolve_mask_def torch_eye_def torch_eq_outer_def split: if_splits)

lemma concat_replicate_replicate:
  "concat (replicate r (replicate b y)) = replicate (r * b) y"
  by (induction r) (simp_all add: replicate_add)

lemma ones_like_repeat:
  assumes "length m = B" and "\<forall>row\<in>set m. length row = B"
  shows "torch_ones_like (torch_repeat m r c) = replicate (r * B) (replicate (c * B) 1)"
proof -
  have row: "map (\<lambda>_. 1::real) (concat (replicate c row)) = replicate (c * B) 1"
    if "row \<in> set m" for row
    using that assms(2) by (simp add: map_replicate_const length_concat sum_list_replicate)
  have "map (\<lambda>row. map (\<lambda>_. 1::real) (concat (replicate c row))) m
        = map (\<lambda>row. replicate (c * B) 1) m"
    using row by simp
  also have "\<dots> = replicate B (replicate (c * B) 1)"
    using assms(1) by (simp add: map_replicate_const)
  finally have "torch_ones_like (map (\<lambda>row. concat (replicate c row)) m)
        = replicate B (replicate (c * B) 1)"
    by (simp add: torch_ones_like_def o_def)
  then show ?thesis
    by (simp add: torch_repeat_def torch_ones_like_def map_concat concat_replicate_replicate)
qed

lemma repeat_shape:
  assumes "length m = B" and "\<forall>row\<in>set m. length row = B"
  shows "length (torch_repeat m r c) = r * B"
    and "\<forall>row\<in>set (torch_repeat m r c). length row = c * B"
  using assms
  by (auto simp: torch_repeat_def length_concat sum_list_replicate map_replicate_const o_def)

lemma scatter_ones:
  assumes "n \<le> rows" and "n \<le> cols"
  shows "torch_scatter1 (replicate rows (replicate cols 1)) (arange_col n) 0
         = Inr (map (\<lambda>i. if i < n then (replicate cols 1)[i := 0] else replicate cols 1)
                  [0..<rows])"
proof -
  have "list_all (\<lambda>(row, ks). list_all (\<lambda>k. k < length row) ks)
          (zip (replicate rows (replicate cols (1::real))) (arange_col n))"
    using assms by (auto simp: list_all_iff arange_col_def set_zip)
  then show ?thesis
    using assms by (simp add: torch_scatter1_def arange_col_def)
qed

lemma resolve_mask_cases:
  "resolve_mask B l m =
     (if l \<noteq> None \<and> m \<noteq> None then Inl ArgumentConflictError
      else if \<not> resolves B l m then Inl ShapeError
      else Inr (if l = None \<and> m = None then torch_eye B
                else if l \<noteq> None then torch_eq_outer (the l)
                else map (\<lambda>i. map (\<lambda>j. (the m) i j) [0..<B]) [0..<B]))"
  by (auto simp: resolve_mask_def resolves_def)

lemma setup_rank:
  "length (shape f) < 3 \<Longrightarrow> forward_setup self f l m = Inl ShapeError"
  by (simp add: forward_setup_def check_features_cases)

lemma setup_view:
  "3 \<le> length (shape f) \<Longrightarrow> \<not> flattens f \<Longrightarrow> forward_setup self f l m = Inl LibraryError"
  by (simp add: forward_setup_def check_features_cases)

lemma setup_conflict:
  "flattens f \<Longrightarrow> l \<noteq> None \<Longrightarrow> m \<noteq> None \<Longrightarrow> forward_setup self f l m = Inl ArgumentConflictError"
  by (simp add: forward_setup_def check_features_cases flattens_def resolve_mask_def)

lemma setup_labels:
  "flattens f \<Longrightarrow> \<not> (l \<noteq> None \<and> m \<noteq> None) \<Longrightarrow> \<not> resolves (shape f ! 0) l m \<Longrightarrow>
   forward_setup self f l m = Inl ShapeError"
  by (auto simp: forward_setup_def check_features_cases flattens_def resolve_mask_cases)

lemma setup_no_view:
  "flattens f \<Longrightarrow> resolves (shape f ! 0) l m \<Longrightarrow> shape f ! 1 = 0 \<Longrightarrow>
   forward_setup self f l m = Inl LibraryError"
  by (auto simp: forward_setup_def check_features_cases flattens_def resolve_mask_cases
      torch_cat0_def torch_unbind1_def resolves_def)

lemma setup_mode:
  "flattens f \<Longrightarrow> resolves (shape f ! 0) l m \<Longrightarrow> 0 < shape f ! 1 \<Longrightarrow>
   contrast_mode self \<noteq> ''one'' \<Longrightarrow> contrast_mode self \<noteq> ''all'' \<Longrightarrow>
   forward_setup self f l m = Inl InvalidConfigurationError"
  by (auto simp: forward_setup_def check_features_cases flattens_def resolve_mask_cases
      torch_cat0_def torch_unbind1_def resolves_def select_anchor_def)

lemma setup_empty_batch:
  assumes fl: "flattens f" and rs: "resolves (shape f ! 0) l m" and V: "0 < shape f ! 1"
    and mode: "contrast_mode self = ''one'' \<or> contrast_mode self = ''all''"
    and B: "shape f ! 0 = 0"
  shows "forward_setup self f l m = Inl LibraryError"
proof -
  from fl obtain g where g: "check_features f = Inr g"
    by (auto simp: check_features_cases flattens_def)
  have gB: "shape g ! 0 = 0" and gV: "0 < shape g ! 1"
    using check_features_dims[OF g] B V by simp_all
  from rs obtain mask0 where m0: "resolve_mask 0 l m = Inr mask0"
    using B by (auto simp: resolve_mask_cases resolves_def)
  have cat: "torch_cat0 (torch_unbind1 g) = Inr (concat (torch_unbind1 g))"
    using gV by (simp add: torch_cat0_def torch_unbind1_def)
  have empty: "length (concat (torch_unbind1 g)) = 0"
    using gB by (simp add: length_concat_unbind)
  obtain af n where sel:
    "select_anchor (contrast_mode self) g (concat (torch_unbind1 g)) (shape g ! 1) = Inr (af, n)"
    using mode by (auto simp: select_anchor_def)
  show ?thesis
    using sel
    by (simp add: forward_setup_def g gB m0 cat torch_max_dim1_def empty del: length_0_conv)
qed

lemma setup_ok:
  assumes acc: "accepted self f l m"
  shows "\<exists>st. forward_setup self f l m = Inr st
    \<and> batch_size st = shape f ! 0
    \<and> contrast_count st = shape f ! 1
    \<and> anchor_count st = (if contrast_mode self = ''one'' then 1 else shape f ! 1)
    \<and> resolve_mask (shape f ! 0) l m = Inr (mask_pretile st)
    \<and> mask_tiled st = torch_repeat (mask_pretile st) (anchor_count st) (contrast_count st)
    \<and> logits_mask st
        = map (\<lambda>i. (replicate (contrast_count st * batch_size st) 1)[i := 0])
            [0..<anchor_count st * batch_size st]
    \<and> mask_final st = mul2 (mask_tiled st) (logits_mask st)
    \<and> length (anchor_dot_contrast st) = anchor_count st * batch_size st
    \<and> (\<forall>row\<in>set (anchor_dot_contrast st). length row = contrast_count st * batch_size st)
    \<and> logits_max st = map row_max (anchor_dot_contrast st)
    \<and> logits st = sub_keepdim (anchor_dot_contrast st) (logits_max st)
    \<and> (\<exists>products. anchor_dot_contrast st = torch_div products (temperature self))"
proof -
  define B where "B = shape f ! 0"
  define V where "V = shape f ! 1"
  define ac where "ac = (if contrast_mode self = ''one'' then 1 else V)"
  from acc have fl: "flattens f" and rs: "resolves B l m" and V: "0 < V" and B: "0 < B"
    and mode: "contrast_mode self = ''one'' \<or> contrast_mode self = ''all''"
    by (simp_all add: accepted_def B_def V_def)
  from fl obtain g where g: "check_features f = Inr g"
    by (auto simp: check_features_cases flattens_def)
  have gB: "shape g ! 0 = B" and gV: "shape g ! 1 = V"
    using check_features_dims[OF g] by (simp_all add: B_def V_def)
  from rs obtain mask0 where m0: "resolve_mask B l m = Inr mask0"
    by (auto simp: resolve_mask_cases resolves_def)
  define cf where "cf = concat (torch_unbind1 g)"
  have cat: "torch_cat0 (torch_unbind1 g) = Inr cf"
    using V gV by (simp add: torch_cat0_def cf_def torch_unbind1_def)
  have len_cf: "length cf = V * B"
    using gB gV by (simp add: cf_def length_concat_unbind)
  define af where "af = (if contrast_mode self = ''one'' then select_view0 g else cf)"
  have sel: "select_anchor (contrast_mode self) g cf V = Inr (af, ac)"
    using mode by (auto simp: select_anchor_def af_def ac_def)
  have len_af: "length af = ac * B"
    using gB by (simp add: af_def ac_def select_view0_def len_cf)
  define adc where "adc = torch_div (torch_matmul_T af cf) (temperature self)"
  have len_adc: "length adc = ac * B"
    by (simp add: adc_def torch_div_def torch_matmul_T_def len_af)
  have rows_adc: "\<forall>row\<in>set adc. length row = V * B"
    by (auto simp: adc_def torch_div_def torch_matmul_T_def len_cf)
  have mx: "torch_max_dim1 (length cf) adc = Inr (map row_max adc)"
    using V B by (simp add: torch_max_dim1_def len_cf)
  have ac_le: "ac \<le> V"
    using V by (simp add: ac_def)
  have ones: "torch_ones_like (torch_repeat mask0 ac V) = replicate (ac * B) (replicate (V * B) 1)"
    using resolve_mask_shape[OF m0] by (rule ones_like_repeat)
  have "B * ac \<le> V * B"
    using ac_le by (simp add: mult.commute)
  then have sc: "torch_scatter1 (torch_ones_like (torch_repeat mask0 ac V)) (arange_col (B * ac)) 0
      = Inr (map (\<lambda>i. (replicate (V * B) 1)[i := 0]) [0..<ac * B])"
    by (simp add: ones scatter_ones mult.commute cong: map_cong)
  define st where "st = \<lparr>batch_size = B, contrast_count = V, anchor_count = ac,
      mask_pretile = mask0, anchor_dot_contrast = adc, logits_max = map row_max adc,
      logits = sub_keepdim adc (map row_max adc),
      mask_tiled = torch_repeat mask0 ac V,
      logits_mask = map (\<lambda>i. (replicate (V * B) 1)[i := 0]) [0..<ac * B],
      mask_final = mul2 (torch_repeat mask0 ac V)
                     (map (\<lambda>i. (replicate (V * B) 1)[i := 0]) [0..<ac * B])\<rparr>"
  have "forward_setup self f l m = Inr st"
    apply (simp only: forward_setup_def g then_do_Inr)
    apply (simp only: gB gV m0 cat sel then_do_Inr prod.case)
    apply (simp only: adc_def[symmetric] mx sc then_do_Inr st_def)
    done
  moreover have "batch_size st = shape f ! 0" "contrast_count st = shape f ! 1"
    "anchor_count st = (if contrast_mode self = ''one'' then 1 else shape f ! 1)"
    "resolve_mask (shape f ! 0) l m = Inr (mask_pretile st)"
    using m0 by (simp_all add: st_def B_def V_def ac_def)
  moreover have "mask_tiled st = torch_repeat (mask_pretile st) (anchor_count st) (contrast_count st)"
    "logits_mask st = map (\<lambda>i. (replicate (contrast_count st * batch_size st) 1)[i := 0])
            [0..<anchor_count st * batch_size st]"
    "mask_final st = mul2 (mask_tiled st) (logits_mask st)"
    "length (anchor_dot_contrast st) = anchor_count st * batch_size st"
    "\<forall>row\<in>set (anchor_dot_contrast st). length row = contrast_count st * batch_size st"
    "logits_max st = map row_max (anchor_dot_contrast st)"
    "logits st = sub_keepdim (anchor_dot_contrast st) (logits_max st)"
    "\<exists>products. anchor_dot_contrast st = torch_div products (temperature self)"
    using len_adc rows_adc adc_def by (auto simp: st_def)
  ultimately show ?thesis by blast
qed

lemma fmax_None [simp]: "fmax None x = None" "fmax x None = None"
  by (simp_all add: fmax_def split: option.splits)

lemma fold_fmax_None: "fold fmax ys None = None"
  by (induction ys) simp_all

lemma fold_fmax_mem_None: "None \<in> set ys \<Longrightarrow> fold fmax ys x = None"
  by (induction ys arbitrary: x) (auto simp: fold_fmax_None)

lemma row_max_None: "None \<in> set xs \<Longrightarrow> row_max xs = None"
  by (cases xs) (auto simp: row_max_def fold_fmax_None fold_fmax_mem_None)

lemma fold_fmax_Some: "\<exists>m. fold fmax (map Some vs) (Some v) = Some m"
  by (induction vs arbitrary: v) (simp_all add: fmax_def)

lemma row_max_Some: "vs \<noteq> [] \<Longrightarrow> \<exists>m. row_max (map Some vs) = Some m"
  by (cases vs) (simp_all add: row_max_def fold_fmax_Some)

lemma fsum_None: "None \<in> set zs \<Longrightarrow> fsum zs = None"
  by (induction zs) (auto simp: fsum_def fadd_def split: option.splits)

lemma fsum_Some: "fsum (map Some vs) = Some (sum_list vs)"
  by (induction vs) (simp_all add: fsum_def fadd_def)

lemma all_Some: "None \<notin> set xs \<Longrightarrow> xs = map Some (map the xs)"
  by (induction xs) auto

lemma sum_shift:
  "sum_list (map2 (\<lambda>v l. exp (v - m) * l) vs ls)
   = exp (- m) * sum_list (map2 (\<lambda>v l. exp v * l) vs (ls::real list))"
proof (induction vs arbitrary: ls)
  case Nil
  then show ?case by simp
next
  case (Cons v vs)
  show ?case
  proof (cases ls)
    case Nil
    then show ?thesis by simp
  next
    case (Cons l ls')
    then show ?thesis
      using Cons.IH[of ls'] by (simp add: exp_diff exp_minus field_simps)
  qed
qed

lemma log_prob_row_shift:
  assumes len: "length ls = length xs"
  shows "map (\<lambda>x. fsub x (flog (fsum (map2 (\<lambda>x l. fmul (fexp x) (Some l))
                 (map (\<lambda>x. fsub x (row_max xs)) xs) ls))))
           (map (\<lambda>x. fsub x (row_max xs)) xs)
       = map (\<lambda>x. fsub x (flog (fsum (map2 (\<lambda>x l. fmul (fexp x) (Some l)) xs ls)))) xs"
proof (cases "None \<in> set xs")
  case True
  then have mx: "row_max xs = None" by (rule row_max_None)
  from True obtain k where k: "k < length xs" "xs ! k = None"
    by (auto simp: in_set_conv_nth)
  have "map2 (\<lambda>x l. fmul (fexp x) (Some l)) xs ls ! k = None"
    using k len by (simp add: fmul_def fexp_def)
  moreover have "k < length (map2 (\<lambda>x l. fmul (fexp x) (Some l)) xs ls)"
    using k len by simp
  ultimately have "None \<in> set (map2 (\<lambda>x l. fmul (fexp x) (Some l)) xs ls)"
    by (metis nth_mem)
  then have "fsum (map2 (\<lambda>x l. fmul (fexp x) (Some l)) xs ls) = None"
    by (rule fsum_None)
  then show ?thesis
    by (simp add: mx fsub_def flog_def split: option.splits)
next
  case False
  define vs where "vs = map the xs"
  from False have vs: "xs = map Some vs" unfolding vs_def by (rule all_Some)
  show ?thesis
  proof (cases "vs = []")
    case True
    then show ?thesis by (simp add: vs)
  next
    case False
    then obtain m where m: "row_max xs = Some m" using row_max_Some vs by blast
    define S where "S = sum_list (map2 (\<lambda>v l. exp v * l) vs ls)"
    have e1: "map2 (\<lambda>x l. fmul (fexp x) (Some l)) (map (\<lambda>x. fsub x (Some m)) (map Some vs)) ls
            = map Some (map2 (\<lambda>v l. exp (v - m) * l) vs ls)"
      by (simp add: zip_map1 fmul_def fexp_def fsub_def o_def split_def)
    have e2: "map2 (\<lambda>x l. fmul (fexp x) (Some l)) (map Some vs) ls
            = map Some (map2 (\<lambda>v l. exp v * l) vs ls)"
      by (simp add: zip_map1 fmul_def fexp_def o_def split_def)
    have s1: "fsum (map2 (\<lambda>x l. fmul (fexp x) (Some l))
                (map (\<lambda>x. fsub x (Some m)) (map Some vs)) ls) = Some (exp (- m) * S)"
      unfolding e1 fsum_Some sum_shift S_def ..
    have s2: "fsum (map2 (\<lambda>x l. fmul (fexp x) (Some l)) (map Some vs) ls) = Some S"
      unfolding e2 fsum_Some S_def ..
    have pos: "0 < exp (- m) * S \<longleftrightarrow> 0 < S"
      by (simp add: zero_less_mult_iff)
    have ln: "ln (exp (- m) * S) = ln S - m" if "0 < S"
      using that by (simp add: ln_mult)
    show ?thesis
      unfolding vs[symmetric] m unfolding vs s1 s2
      by (auto simp: flog_def fsub_def pos ln)
  qed
qed

lemma not_accepted:
  assumes na: "\<not> accepted self f l m"
  shows "\<exists>e. forward_setup self f l m = Inl e"
proof (cases "flattens f")
  case False
  then show ?thesis
    by (cases "length (shape f) < 3") (simp_all add: setup_rank setup_view)
next
  case fl: True
  show ?thesis
  proof (cases "resolves (shape f ! 0) l m")
    case False
    then show ?thesis
      using fl by (cases "l \<noteq> None \<and> m \<noteq> None") (simp_all add: setup_conflict setup_labels)
  next
    case rs: True
    show ?thesis
    proof (cases "shape f ! 1 = 0")
      case True
      then show ?thesis using fl rs by (simp add: setup_no_view)
    next
      case V: False
      show ?thesis
      proof (cases "contrast_mode self = ''one'' \<or> contrast_mode self = ''all''")
        case False
        then show ?thesis using fl rs V by (simp add: setup_mode)
      next
        case True
        with na fl rs V have "shape f ! 0 = 0"
          by (simp add: accepted_def)
        then show ?thesis using fl rs V True by (simp add: setup_empty_batch)
      qed
    qed
  qed
qed

lemma setup_Inr_accepted: "forward_setup self f l m = Inr st \<Longrightarrow> accepted self f l m"
  using not_accepted[of self f l m] by auto

lemma sub_keepdim_row_max:
  "sub_keepdim m (map row_max m) = map (\<lambda>row. map (\<lambda>x. fsub x (row_max row)) row) m"
  by (simp add: sub_keepdim_def zip_map2 zip_same_conv_map)

lemma log_prob_of_rows:
  "log_prob_of lg lm =
     map2 (\<lambda>row ls. map (\<lambda>x. fsub x (flog (fsum (map2 (\<lambda>x l. fmul (fexp x) (Some l)) row ls)))) row)
       lg lm"
proof (induction lg arbitrary: lm)
  case Nil
  then show ?case by (simp add: log_prob_of_def exp_logits_of_def)
next
  case (Cons row lg)
  then show ?case
    by (cases lm) (simp_all add: log_prob_of_def exp_logits_of_def)
qed

lemma log_prob_shift:
  assumes "length lm = length adc" and "\<forall>i<length adc. length (lm ! i) = length (adc ! i)"
  shows "log_prob_of (sub_keepdim adc (map row_max adc)) lm = log_prob_of adc lm"
proof (rule nth_equalityI)
  show "length (log_prob_of (sub_keepdim adc (map row_max adc)) lm) = length (log_prob_of adc lm)"
    by (simp add: sub_keepdim_row_max log_prob_of_rows)
next
  fix i
  assume "i < length (log_prob_of (sub_keepdim adc (map row_max adc)) lm)"
  then have i: "i < length adc" "i < length lm"
    by (simp_all add: sub_keepdim_row_max log_prob_of_rows)
  then have len: "length (lm ! i) = length (adc ! i)"
    using assms(2) by simp
  show "log_prob_of (sub_keepdim adc (map row_max adc)) lm ! i = log_prob_of adc lm ! i"
    using i log_prob_row_shift[OF len]
    by (simp add: sub_keepdim_row_max log_prob_of_rows)
qed

lemma forward_setup_Inl: "forward_setup self f l m = Inl e \<Longrightarrow> forward self f l m = Inl e"
  by (simp add: forward_def)

lemma forward_cases:
  obtains
    (rank) "length (shape f) < 3" "forward self f l m = Inl ShapeError"
  | (view) "3 \<le> length (shape f)" "\<not> flattens f" "forward self f l m = Inl LibraryError"
  | (both) "flattens f" "l \<noteq> None" "m \<noteq> None" "forward self f l m = Inl ArgumentConflictError"
  | (labels) "flattens f" "\<not> (l \<noteq> None \<and> m \<noteq> None)" "\<not> resolves (shape f ! 0) l m"
      "forward self f l m = Inl ShapeError"
  | (views) "flattens f" "resolves (shape f ! 0) l m" "shape f ! 1 = 0"
      "forward self f l m = Inl LibraryError"
  | (mode) "flattens f" "resolves (shape f ! 0) l m" "0 < shape f ! 1"
      "contrast_mode self \<noteq> ''one''" "contrast_mode self \<noteq> ''all''"
      "forward self f l m = Inl InvalidConfigurationError"
  | (batch) "flattens f" "resolves (shape f ! 0) l m" "0 < shape f ! 1"
      "contrast_mode self = ''one'' \<or> contrast_mode self = ''all''" "shape f ! 0 = 0"
      "forward self f l m = Inl LibraryError"
  | (ok) st where "accepted self f l m" "forward_setup self f l m = Inr st"
      "forward self f l m = forward_reduce self st"
proof (cases "flattens f")
  case False
  show ?thesis
  proof (cases "length (shape f) < 3")
    case True
    then show ?thesis using rank by (simp add: forward_setup_Inl setup_rank)
  next
    case False
    with \<open>\<not> flattens f\<close> show ?thesis using view by (simp add: forward_setup_Inl setup_view)
  qed
next
  case fl: True
  show ?thesis
  proof (cases "resolves (shape f ! 0) l m")
    case False
    show ?thesis
    proof (cases "l \<noteq> None \<and> m \<noteq> None")
      case True
      then show ?thesis using fl both by (simp add: forward_setup_Inl setup_conflict)
    next
      case nb: False
      then show ?thesis using fl False labels by (simp add: forward_setup_Inl setup_labels)
    qed
  next
    case rs: True
    show ?thesis
    proof (cases "shape f ! 1 = 0")
      case True
      then show ?thesis using fl rs views by (simp add: forward_setup_Inl setup_no_view)
    next
      case V: False
      show ?thesis
      proof (cases "contrast_mode self = ''one'' \<or> contrast_mode self = ''all''")
        case False
        then show ?thesis using fl rs V mode by (simp add: forward_setup_Inl setup_mode)
      next
        case md: True
        show ?thesis
        proof (cases "shape f ! 0 = 0")
          case True
          then show ?thesis
            using fl rs V md batch by (simp add: forward_setup_Inl setup_empty_batch)
        next
          case False
          then have acc: "accepted self f l m"
            using fl rs V md by (simp add: accepted_def)
          then obtain st where st: "forward_setup self f l m = Inr st"
            using setup_ok by blast
          then have "forward self f l m = forward_reduce self st"
            by (simp add: forward_def)
          then show ?thesis using acc st ok by blast
        qed
      qed
    qed
  qed
qed

lemma ex_flattens: "flattens ex_features" "flattens ex_single_view" "\<not> flattens ex_rank2"
  by (simp_all add: flattens_def ex_features_def ex_single_view_def ex_rank2_def)

subsection \<open>The pre-tile mask\<close>

text \<open>
  Claim C8. Called with \<^verbatim>\<open>labels=None\<close> and \<^verbatim>\<open>mask=None\<close>, \<^verbatim>\<open>forward\<close> builds the
  identity matrix of size \<open>batch_size\<close> as its mask before tiling: entry \<open>(i, j)\<close> is
  1 when \<open>i = j\<close> and 0 otherwise, so each sample is its own only positive. The last
  conjunct says so of the mask of any run that reaches line 85.
\<close>

theorem default_mask_identity:
  "resolve_mask n None None = Inr (torch_eye n)
   \<and> length (torch_eye n) = n
   \<and> (\<forall>i<n. length (torch_eye n ! i) = n
          \<and> (\<forall>j<n. torch_eye n ! i ! j = (if i = j then 1 else 0)))
   \<and> (forward_setup self features None None = Inr st
        \<longrightarrow> batch_size st = shape features ! 0 \<and> mask_pretile st = torch_eye (batch_size st))"
proof -
  have "batch_size st = shape features ! 0 \<and> mask_pretile st = torch_eye (batch_size st)"
    if st: "forward_setup self features None None = Inr st"
  proof -
    from st have "accepted self features None None" by (rule setup_Inr_accepted)
    from setup_ok[OF this] st
    have "batch_size st = shape features ! 0"
      and "resolve_mask (shape features ! 0) None None = Inr (mask_pretile st)"
      by auto
    then show ?thesis by (simp add: resolve_mask_def)
  qed
  then show ?thesis
    by (simp add: resolve_mask_def torch_eye_def)
qed

theorem default_mask_identity_witness:
  "resolve_mask 2 None None = Inr [[1, 0], [0, 1]]
   \<and> (\<exists>st. forward_setup ex_loss ex_features None None = Inr st
            \<and> mask_pretile st = [[1, 0], [0, 1]])"
proof -
  have eye: "torch_eye 2 = [[1, 0], [0, 1]]"
    by (simp add: torch_eye_def upt_rec numeral_2_eq_2)
  have "accepted ex_loss ex_features None None"
    by (simp add: accepted_def ex_flattens resolves_def) (simp add: ex_loss_def ex_features_def)
  then obtain st where st: "forward_setup ex_loss ex_features None None = Inr st"
    using setup_ok by blast
  from default_mask_identity[of 2 ex_loss ex_features st] st
  have "resolve_mask 2 None None = Inr (torch_eye 2)"
    and "batch_size st = shape ex_features ! 0" and "mask_pretile st = torch_eye (batch_size st)"
    by simp_all
  then show ?thesis using st eye by (simp add: ex_features_def)
qed

text \<open>
  Claim C3. Called with labels and no mask, as many labels as samples, \<^verbatim>\<open>forward\<close>
  builds the mask with entry \<open>(i, j)\<close> equal to 1 when \<open>labels[i] = labels[j]\<close> and 0
  otherwise; the mask is symmetric. The last conjunct says so of the mask of any run
  that reaches line 85.
\<close>

theorem label_mask_same_class:
  "(length ls = n \<longrightarrow>
      resolve_mask n (Some ls) None = Inr (torch_eq_outer ls)
      \<and> length (torch_eq_outer ls) = n
      \<and> (\<forall>i<n. length (torch_eq_outer ls ! i) = n
            \<and> (\<forall>j<n. torch_eq_outer ls ! i ! j = (if ls ! i = ls ! j then 1 else 0)
                   \<and> torch_eq_outer ls ! i ! j = torch_eq_outer ls ! j ! i)))
   \<and> (forward_setup self features (Some ls) None = Inr st
        \<longrightarrow> length ls = batch_size st \<and> mask_pretile st = torch_eq_outer ls)"
proof -
  have "length ls = batch_size st \<and> mask_pretile st = torch_eq_outer ls"
    if st: "forward_setup self features (Some ls) None = Inr st"
  proof -
    from st have acc: "accepted self features (Some ls) None" by (rule setup_Inr_accepted)
    then have len: "length ls = shape features ! 0"
      by (simp add: accepted_def resolves_def)
    from setup_ok[OF acc] st
    have "batch_size st = shape features ! 0"
      and "resolve_mask (shape features ! 0) (Some ls) None = Inr (mask_pretile st)"
      by auto
    then show ?thesis using len by (simp add: resolve_mask_def)
  qed
  then show ?thesis
    by (auto simp: resolve_mask_def torch_eq_outer_def)
qed

theorem label_mask_same_class_witness:
  "resolve_mask 3 (Some [7, 4, 7]) None = Inr [[1, 0, 1], [0, 1, 0], [1, 0, 1]]"
  using label_mask_same_class[of "[7, 4, 7]" 3]
  by (simp add: torch_eq_outer_def)

subsection \<open>Errors and the order of the checks\<close>

text \<open>
  Claim C5, as amended. \<^verbatim>\<open>forward\<close> fails with \<open>ShapeError\<close> exactly when the
  features have rank below 3, or when the checks of lines 38-42 pass, labels are given
  without a mask, and the number of labels differs from \<open>batch_size\<close>. With both labels
  and a mask the conflict of line 46 is raised first, whatever the number of labels.
  Features of rank above 3 that pass the checks are flattened to three dimensions.
\<close>

theorem shape_error_iff:
  "(forward self features labels mask_arg = Inl ShapeError \<longleftrightarrow>
      (length (shape features) < 3
       \<or> (flattens features \<and> labels \<noteq> None \<and> mask_arg = None
           \<and> length (the labels) \<noteq> shape features ! 0)))
   \<and> (3 < length (shape features) \<and> flattens features \<longrightarrow>
        check_features features
          = Inr \<lparr>shape = [shape features ! 0, shape features ! 1,
                          prod_list (shape features) div (shape features ! 0 * shape features ! 1)],
                 entries = entries features\<rparr>)"
proof -
  have "forward self features labels mask_arg = Inl ShapeError \<longleftrightarrow>
      (length (shape features) < 3
       \<or> (flattens features \<and> labels \<noteq> None \<and> mask_arg = None
           \<and> length (the labels) \<noteq> shape features ! 0))"
  proof (cases rule: forward_cases[of features self labels mask_arg])
    case rank then show ?thesis by simp
  next
    case view then show ?thesis by simp
  next
    case both then show ?thesis by (simp add: flattens_def)
  next
    case labels then show ?thesis by (auto simp: resolves_def flattens_def)
  next
    case views then show ?thesis by (auto simp: resolves_def flattens_def)
  next
    case mode then show ?thesis by (auto simp: resolves_def flattens_def)
  next
    case batch then show ?thesis by (auto simp: resolves_def flattens_def)
  next
    case (ok st)
    then show ?thesis
      by (auto simp: accepted_def resolves_def flattens_def forward_reduce_errors)
  qed
  then show ?thesis
    by (simp add: check_features_cases)
qed

theorem shape_error_iff_witness:
  "forward ex_loss ex_rank2 None None = Inl ShapeError
   \<and> forward ex_loss ex_features (Some [0]) None = Inl ShapeError
   \<and> forward ex_loss ex_features (Some [0, 1]) None \<noteq> Inl ShapeError"
  using shape_error_iff[of ex_loss ex_rank2 None None]
    shape_error_iff[of ex_loss ex_features "Some [0]" None]
    shape_error_iff[of ex_loss ex_features "Some [0, 1]" None]
  by (simp add: ex_flattens) (simp add: ex_features_def ex_rank2_def)

theorem shape_error_counterexample:
  "length [0::int] \<noteq> shape ex_features ! 0
   \<and> forward ex_loss ex_features (Some [0]) (Some ex_mask) = Inl ArgumentConflictError"
  by (simp add: forward_setup_Inl setup_conflict ex_flattens) (simp add: ex_features_def)

text \<open>
  Claim C6, as amended. For features that pass the checks of lines 38-42, a call with
  both labels and a mask fails with \<open>ArgumentConflictError\<close>, whatever the labels, the
  mask and the configuration are. Features of rank below 3 are refused first, with
  \<open>ShapeError\<close>.
\<close>

theorem conflict_error:
  assumes "flattens features"
  shows "forward self features (Some ls) (Some mk) = Inl ArgumentConflictError"
  using assms by (simp add: forward_setup_Inl setup_conflict)

theorem conflict_error_witness:
  "forward ex_loss ex_features (Some [0, 1]) (Some ex_mask) = Inl ArgumentConflictError"
  using conflict_error[of ex_features ex_loss "[0, 1]" ex_mask] by (simp add: ex_flattens)

theorem conflict_error_counterexample:
  "forward ex_loss ex_rank2 (Some [0, 1]) (Some ex_mask) = Inl ShapeError"
  by (simp add: forward_setup_Inl setup_rank ex_rank2_def)

text \<open>
  Claim C9, as amended. \<^verbatim>\<open>forward\<close> fails with \<open>InvalidConfigurationError\<close> exactly
  when the mode is neither \<^verbatim>\<open>one\<close> nor \<^verbatim>\<open>all\<close> and the call gets as far as line 59:
  the features pass the checks of lines 38-42, labels and mask are not both given, given
  labels are as many as the samples, and there is at least one view. In particular the
  error is never raised for the modes \<^verbatim>\<open>one\<close> and \<^verbatim>\<open>all\<close>.
\<close>

theorem invalid_mode_iff:
  "forward self features labels mask_arg = Inl InvalidConfigurationError \<longleftrightarrow>
     (contrast_mode self \<noteq> ''one'' \<and> contrast_mode self \<noteq> ''all''
      \<and> flattens features \<and> resolves (shape features ! 0) labels mask_arg
      \<and> 0 < shape features ! 1)"
proof (cases rule: forward_cases[of features self labels mask_arg])
  case rank then show ?thesis by (simp add: flattens_def)
next
  case view then show ?thesis by simp
next
  case both then show ?thesis by (simp add: resolves_def)
next
  case labels then show ?thesis by simp
next
  case views then show ?thesis by simp
next
  case mode then show ?thesis by simp
next
  case batch then show ?thesis by auto
next
  case (ok st)
  then show ?thesis by (auto simp: accepted_def forward_reduce_errors)
qed

theorem invalid_mode_iff_witness:
  "forward ex_bad_mode ex_features None None = Inl InvalidConfigurationError
   \<and> forward ex_loss ex_features None None \<noteq> Inl InvalidConfigurationError"
  using invalid_mode_iff[of ex_bad_mode ex_features None None]
    invalid_mode_iff[of ex_loss ex_features None None]
  by (simp add: ex_flattens resolves_def ex_bad_mode_def ex_loss_def) (simp add: ex_features_def)

theorem invalid_mode_counterexample:
  "contrast_mode ex_bad_mode \<noteq> ''one'' \<and> contrast_mode ex_bad_mode \<noteq> ''all''
   \<and> forward ex_bad_mode ex_features (Some [0, 1]) (Some ex_mask) = Inl ArgumentConflictError"
  by (simp add: forward_setup_Inl setup_conflict ex_flattens) (simp add: ex_bad_mode_def)

text \<open>
  Claim C10, as amended. The constructor returns an object for every temperature, mode
  and base temperature. The mode is checked inside \<^verbatim>\<open>forward\<close> only, after the rank
  check and after labels and mask are resolved: a run that fails with
  \<open>InvalidConfigurationError\<close> has passed both. So a call with both labels and a mask
  never fails with \<open>InvalidConfigurationError\<close>, whatever the mode is; it fails with
  \<open>ArgumentConflictError\<close> when the features pass the checks of lines 38-42, and
  otherwise with the error of those lines.
\<close>

theorem construction_and_check_order:
  "SupConLoss_init t c b = Inr \<lparr>temperature = t, contrast_mode = c, base_temperature = b\<rparr>
   \<and> (forward self features labels mask_arg = Inl InvalidConfigurationError
        \<longrightarrow> flattens features \<and> resolves (shape features ! 0) labels mask_arg)
   \<and> (flattens features
        \<longrightarrow> forward self features (Some ls) (Some mk) = Inl ArgumentConflictError)
   \<and> forward self features (Some ls) (Some mk) \<noteq> Inl InvalidConfigurationError
   \<and> forward self features (Some ls) (Some mk)
       = (if length (shape features) < 3 then Inl ShapeError
          else if \<not> flattens features then Inl LibraryError
          else Inl ArgumentConflictError)"
proof -
  have init: "SupConLoss_init t c b
      = Inr \<lparr>temperature = t, contrast_mode = c, base_temperature = b\<rparr>"
    by (simp add: SupConLoss_init_def)
  have late: "flattens features \<and> resolves (shape features ! 0) labels mask_arg"
    if "forward self features labels mask_arg = Inl InvalidConfigurationError"
    using that
    by (cases rule: forward_cases[of features self labels mask_arg])
      (simp_all add: forward_reduce_errors)
  have both: "forward self features (Some ls) (Some mk) = Inl ArgumentConflictError"
    if "flattens features"
    using that by (simp add: forward_setup_Inl setup_conflict)
  have never: "forward self features (Some ls) (Some mk) \<noteq> Inl InvalidConfigurationError"
    by (cases rule: forward_cases[of features self "Some ls" "Some mk"])
      (simp_all add: resolves_def accepted_def)
  have exact: "forward self features (Some ls) (Some mk)
       = (if length (shape features) < 3 then Inl ShapeError
          else if \<not> flattens features then Inl LibraryError
          else Inl ArgumentConflictError)"
    by (simp add: forward_setup_Inl setup_rank setup_view setup_conflict)
  from init late both never exact show ?thesis by blast
qed

theorem construction_and_check_order_witness:
  "SupConLoss_init 0 ''two'' (- 1)
     = Inr \<lparr>temperature = 0, contrast_mode = ''two'', base_temperature = - 1\<rparr>
   \<and> forward ex_bad_mode ex_features (Some [0, 1]) (Some ex_mask) = Inl ArgumentConflictError
   \<and> forward ex_bad_mode ex_features (Some [0, 1]) (Some ex_mask) \<noteq> Inl InvalidConfigurationError"
  using construction_and_check_order[of 0 "''two''" "- 1" ex_bad_mode ex_features
      "Some [0, 1]" "Some ex_mask" "[0, 1]" ex_mask]
  by (simp add: ex_flattens)

theorem construction_and_check_order_counterexample:
  "contrast_mode ex_bad_mode \<noteq> ''one'' \<and> contrast_mode ex_bad_mode \<noteq> ''all''
   \<and> forward ex_bad_mode ex_rank2 (Some [0, 1]) (Some ex_mask) = Inl ShapeError"
  by (simp add: forward_setup_Inl setup_rank ex_rank2_def) (simp add: ex_bad_mode_def)

subsection \<open>The self-contrast mask\<close>

lemma zero_count_row:
  assumes "r < n"
  shows "length (filter (\<lambda>x. x = 0) ((replicate n (1::real))[r := 0])) = 1"
proof -
  have "(replicate n (1::real))[r := 0] = replicate r 1 @ 0 # replicate (n - Suc r) 1"
    using assms by (simp add: upd_conv_take_nth_drop)
  then show ?thesis by simp
qed

lemma flat_index_less: "v < a \<Longrightarrow> b < B \<Longrightarrow> v * B + b < a * (B::nat)"
proof -
  assume "v < a" "b < B"
  then have "v * B + b < Suc v * B" by simp
  also have "\<dots> \<le> a * B" using \<open>v < a\<close> by (intro mult_le_mono1) simp
  finally show ?thesis .
qed

lemma zero_count_total:
  assumes "k \<le> n"
  shows "length (filter (\<lambda>x. x = 0)
           (concat (map (\<lambda>i. (replicate n (1::real))[i := 0]) [0..<k]))) = k"
proof -
  have eq: "map (\<lambda>i. length (filter (\<lambda>x. x = 0) ((replicate n (1::real))[i := 0]))) [0..<k]
        = map (\<lambda>i. 1) [0..<k]"
    using assms by (intro map_cong) (simp_all add: zero_count_row)
  have "length (filter (\<lambda>x. x = 0)
           (concat (map (\<lambda>i. (replicate n (1::real))[i := 0]) [0..<k])))
        = sum_list (map (\<lambda>i. length (filter (\<lambda>x. x = 0) ((replicate n (1::real))[i := 0])))
            [0..<k])"
    by (simp add: filter_concat length_concat o_def)
  also have "\<dots> = sum_list (map (\<lambda>i. 1) [0..<k])"
    by (simp only: eq)
  also have "\<dots> = k"
    by (simp add: sum_list_triv)
  finally show ?thesis .
qed

text \<open>
  Claim C1. For a call that gets past the checks, so for every batch size and view count
  of at least 1 and for both modes, \<^verbatim>\<open>logits_mask\<close> has \<open>anchor_count * batch_size\<close>
  rows of \<open>contrast_count * batch_size\<close> entries; row \<open>r\<close> is 0 in column \<open>r\<close> and 1 in
  every other column, so it has exactly one zero and the matrix has
  \<open>anchor_count * batch_size\<close> zeros. The pair of an anchor \<open>(v, b)\<close> with another view
  \<open>(w, b)\<close> of the same sample keeps the entry 1.
\<close>

theorem logits_mask_self_exclusion:
  assumes "accepted self features labels mask_arg"
  shows "\<exists>st. forward_setup self features labels mask_arg = Inr st
    \<and> batch_size st = shape features ! 0
    \<and> contrast_count st = shape features ! 1
    \<and> anchor_count st = (if contrast_mode self = ''one'' then 1 else shape features ! 1)
    \<and> length (logits_mask st) = anchor_count st * batch_size st
    \<and> (\<forall>r<anchor_count st * batch_size st.
          length (logits_mask st ! r) = contrast_count st * batch_size st
          \<and> (\<forall>c<contrast_count st * batch_size st.
                logits_mask st ! r ! c = (if c = r then 0 else 1))
          \<and> length (filter (\<lambda>x. x = 0) (logits_mask st ! r)) = 1)
    \<and> length (filter (\<lambda>x. x = 0) (concat (logits_mask st))) = anchor_count st * batch_size st
    \<and> (\<forall>b<batch_size st. \<forall>v<anchor_count st. \<forall>w<contrast_count st.
          w \<noteq> v \<longrightarrow> logits_mask st ! (v * batch_size st + b) ! (w * batch_size st + b) = 1)"
proof -
  from setup_ok[OF assms] obtain st where
    st: "forward_setup self features labels mask_arg = Inr st"
    and B: "batch_size st = shape features ! 0"
    and V: "contrast_count st = shape features ! 1"
    and ac: "anchor_count st = (if contrast_mode self = ''one'' then 1 else shape features ! 1)"
    and lm: "logits_mask st
        = map (\<lambda>i. (replicate (contrast_count st * batch_size st) 1)[i := 0])
            [0..<anchor_count st * batch_size st]"
    by blast
  define k where "k = anchor_count st * batch_size st"
  define n where "n = contrast_count st * batch_size st"
  from assms have "0 < shape features ! 1" by (simp add: accepted_def)
  then have "anchor_count st \<le> contrast_count st"
    using ac V by simp
  then have kn: "k \<le> n"
    unfolding k_def n_def by (rule mult_le_mono1)
  have lm': "logits_mask st = map (\<lambda>i. (replicate n 1)[i := 0]) [0..<k]"
    using lm by (simp add: k_def n_def)
  have len: "length (logits_mask st) = k"
    by (simp add: lm')
  have row: "logits_mask st ! r = (replicate n 1)[r := 0]" if "r < k" for r
    using that by (simp add: lm')
  have rows: "length (logits_mask st ! r) = n
      \<and> (\<forall>c<n. logits_mask st ! r ! c = (if c = r then 0 else 1))
      \<and> length (filter (\<lambda>x. x = 0) (logits_mask st ! r)) = 1" if "r < k" for r
  proof -
    from that kn have "r < n" by simp
    then show ?thesis
      by (auto simp: row[OF that] zero_count_row)
  qed
  have total: "length (filter (\<lambda>x. x = 0) (concat (logits_mask st))) = k"
    unfolding lm' using kn by (rule zero_count_total)
  have cross: "logits_mask st ! (v * batch_size st + b) ! (w * batch_size st + b) = 1"
    if "b < batch_size st" "v < anchor_count st" "w < contrast_count st" "w \<noteq> v" for b v w
  proof -
    have r: "v * batch_size st + b < k"
      unfolding k_def using that(2,1) by (rule flat_index_less)
    have c: "w * batch_size st + b < n"
      unfolding n_def using that(3,1) by (rule flat_index_less)
    have "w * batch_size st + b \<noteq> v * batch_size st + b"
      using that by simp
    then show ?thesis
      using rows[OF r] c by simp
  qed
  show ?thesis
    using st B V ac len rows total cross unfolding k_def n_def by blast
qed

theorem logits_mask_self_exclusion_witness:
  "\<exists>st. forward_setup ex_loss ex_features None None = Inr st
     \<and> length (logits_mask st) = 4
     \<and> logits_mask st ! 1 ! 1 = 0 \<and> logits_mask st ! 1 ! 3 = 1"
proof -
  have "accepted ex_loss ex_features None None"
    by (simp add: accepted_def ex_flattens resolves_def) (simp add: ex_loss_def ex_features_def)
  from logits_mask_self_exclusion[OF this] obtain st where
    st: "forward_setup ex_loss ex_features None None = Inr st"
    and B: "batch_size st = shape ex_features ! 0"
    and V: "contrast_count st = shape ex_features ! 1"
    and ac: "anchor_count st = (if contrast_mode ex_loss = ''one'' then 1 else shape ex_features ! 1)"
    and len: "length (logits_mask st) = anchor_count st * batch_size st"
    and rows: "\<forall>r<anchor_count st * batch_size st.
          length (logits_mask st ! r) = contrast_count st * batch_size st
          \<and> (\<forall>c<contrast_count st * batch_size st.
                logits_mask st ! r ! c = (if c = r then 0 else 1))
          \<and> length (filter (\<lambda>x. x = 0) (logits_mask st ! r)) = 1"
    by blast
  have dims: "batch_size st = 2" "contrast_count st = 2" "anchor_count st = 2"
    using B V ac by (simp_all add: ex_features_def ex_loss_def)
  from rows have "\<forall>c<4. logits_mask st ! 1 ! c = (if c = 1 then 0 else 1)"
    by (simp add: dims)
  then have "logits_mask st ! 1 ! 1 = 0" "logits_mask st ! 1 ! 3 = 1"
    by simp_all
  then show ?thesis using st len by (auto simp: dims)
qed

subsection \<open>One view: the two modes agree\<close>

lemma single_view_cat: "shape g ! 1 = 1 \<Longrightarrow> concat (torch_unbind1 g) = select_view0 g"
  by (simp add: torch_unbind1_def select_view0_def)

lemma single_view_select:
  assumes "shape g ! 1 = 1"
  shows "select_anchor ''one'' g (concat (torch_unbind1 g)) (shape g ! 1) = Inr (select_view0 g, 1)"
    and "select_anchor ''all'' g (concat (torch_unbind1 g)) (shape g ! 1) = Inr (select_view0 g, 1)"
  using assms by (simp_all add: select_anchor_def single_view_cat)

lemma forward_reduce_mode:
  "forward_reduce (self\<lparr>contrast_mode := c\<rparr>) st = forward_reduce self st"
  by (simp add: forward_reduce_def)

lemma single_view_setup:
  assumes V: "shape features ! 1 = 1"
  shows "forward_setup (self\<lparr>contrast_mode := ''one''\<rparr>) features labels mask_arg
       = forward_setup (self\<lparr>contrast_mode := ''all''\<rparr>) features labels mask_arg"
proof (cases "check_features features")
  case (Inl e)
  then show ?thesis by (simp add: forward_setup_def)
next
  case (Inr g)
  from check_features_dims(2)[OF Inr] V have gV: "shape g ! 1 = 1" by simp
  have cat: "torch_cat0 (torch_unbind1 g) = Inr (concat (torch_unbind1 g))"
    using gV by (simp add: torch_cat0_def torch_unbind1_def)
  show ?thesis
  proof (cases "resolve_mask (shape g ! 0) labels mask_arg")
    case (Inl e)
    then show ?thesis by (simp add: forward_setup_def \<open>check_features features = Inr g\<close>)
  next
    case (Inr mask0)
    show ?thesis
      using gV
      by (simp add: forward_setup_def \<open>check_features features = Inr g\<close> Inr cat
          select_anchor_def single_view_cat)
  qed
qed

text \<open>
  Claim C7. With a single view (\<open>n_views = 1\<close>) the modes \<^verbatim>\<open>one\<close> and \<^verbatim>\<open>all\<close> select
  the same anchors, the slice of view 0 with anchor count 1, and \<^verbatim>\<open>forward\<close> returns
  the same result in both modes: the same loss, or the same error.
\<close>

theorem mode_equivalence_single_view:
  assumes "shape features ! 1 = 1"
  shows "forward (self\<lparr>contrast_mode := ''one''\<rparr>) features labels mask_arg
           = forward (self\<lparr>contrast_mode := ''all''\<rparr>) features labels mask_arg
    \<and> forward_setup (self\<lparr>contrast_mode := ''one''\<rparr>) features labels mask_arg
           = forward_setup (self\<lparr>contrast_mode := ''all''\<rparr>) features labels mask_arg
    \<and> (\<forall>g. check_features features = Inr g \<longrightarrow>
          select_anchor ''one'' g (concat (torch_unbind1 g)) (shape g ! 1)
            = Inr (select_view0 g, 1)
          \<and> select_anchor ''all'' g (concat (torch_unbind1 g)) (shape g ! 1)
            = Inr (select_view0 g, 1))"
proof -
  have same_setup: "forward_setup (self\<lparr>contrast_mode := ''one''\<rparr>) features labels mask_arg
           = forward_setup (self\<lparr>contrast_mode := ''all''\<rparr>) features labels mask_arg"
    using assms by (rule single_view_setup)
  have loss: "forward (self\<lparr>contrast_mode := ''one''\<rparr>) features labels mask_arg
           = forward (self\<lparr>contrast_mode := ''all''\<rparr>) features labels mask_arg"
    by (simp add: forward_def same_setup forward_reduce_mode[abs_def])
  have sel: "select_anchor ''one'' g (concat (torch_unbind1 g)) (shape g ! 1)
            = Inr (select_view0 g, 1)
          \<and> select_anchor ''all'' g (concat (torch_unbind1 g)) (shape g ! 1)
            = Inr (select_view0 g, 1)" if "check_features features = Inr g" for g
  proof -
    from check_features_dims(2)[OF that] assms have gV: "shape g ! 1 = 1" by simp
    show ?thesis by (intro conjI single_view_select gV)
  qed
  from loss same_setup sel show ?thesis by blast
qed

theorem mode_equivalence_single_view_witness:
  "forward (ex_loss\<lparr>contrast_mode := ''one''\<rparr>) ex_single_view (Some [0, 0]) None
     = forward (ex_loss\<lparr>contrast_mode := ''all''\<rparr>) ex_single_view (Some [0, 0]) None"
  using mode_equivalence_single_view[of ex_single_view ex_loss "Some [0, 0]" None]
  by (simp add: ex_single_view_def)

subsection \<open>Subtracting the row maximum\<close>

lemma setup_shapes:
  assumes "accepted self f l m"
  obtains st where "forward_setup self f l m = Inr st"
    and "logits st = sub_keepdim (anchor_dot_contrast st) (map row_max (anchor_dot_contrast st))"
    and "length (logits_mask st) = length (anchor_dot_contrast st)"
    and "\<forall>i<length (anchor_dot_contrast st).
           length (logits_mask st ! i) = length (anchor_dot_contrast st ! i)"
proof -
  from setup_ok[OF assms] obtain st where
    st: "forward_setup self f l m = Inr st"
    and lm: "logits_mask st
        = map (\<lambda>i. (replicate (contrast_count st * batch_size st) 1)[i := 0])
            [0..<anchor_count st * batch_size st]"
    and len: "length (anchor_dot_contrast st) = anchor_count st * batch_size st"
    and rows: "\<forall>row\<in>set (anchor_dot_contrast st). length row = contrast_count st * batch_size st"
    and mx: "logits_max st = map row_max (anchor_dot_contrast st)"
    and lg: "logits st = sub_keepdim (anchor_dot_contrast st) (logits_max st)"
    by blast
  have 1: "length (logits_mask st) = length (anchor_dot_contrast st)"
    by (simp add: lm len)
  have 2: "\<forall>i<length (anchor_dot_contrast st).
           length (logits_mask st ! i) = length (anchor_dot_contrast st ! i)"
    using rows by (simp add: lm len)
  from st lg mx 1 2 that show ?thesis by simp
qed

lemma forward_reduce_logits:
  assumes "log_prob_of lg (logits_mask st) = log_prob_of (logits st) (logits_mask st)"
  shows "forward_reduce self (st\<lparr>logits := lg\<rparr>) = forward_reduce self st"
  using assms by (simp add: forward_reduce_def)

text \<open>
  Claim C2. Subtracting the maximum of each row from the logits (line 74) changes
  neither the log-probabilities of line 89 nor the result of \<^verbatim>\<open>forward\<close>: computed from
  the raw \<open>anchor_dot_contrast\<close>, both are the same, for every input.
\<close>

theorem max_shift_invariance:
  "forward_unshifted self features labels mask_arg = forward self features labels mask_arg
   \<and> (\<forall>st. forward_setup self features labels mask_arg = Inr st \<longrightarrow>
         logits st = sub_keepdim (anchor_dot_contrast st) (map row_max (anchor_dot_contrast st))
         \<and> log_prob_of (logits st) (logits_mask st)
             = log_prob_of (anchor_dot_contrast st) (logits_mask st))"
proof (cases "accepted self features labels mask_arg")
  case True
  then obtain st where st: "forward_setup self features labels mask_arg = Inr st"
    and lg: "logits st = sub_keepdim (anchor_dot_contrast st) (map row_max (anchor_dot_contrast st))"
    and len: "length (logits_mask st) = length (anchor_dot_contrast st)"
    and rows: "\<forall>i<length (anchor_dot_contrast st).
           length (logits_mask st ! i) = length (anchor_dot_contrast st ! i)"
    by (rule setup_shapes)
  have lp: "log_prob_of (logits st) (logits_mask st)
      = log_prob_of (anchor_dot_contrast st) (logits_mask st)"
    unfolding lg using len rows by (rule log_prob_shift)
  then have "forward_reduce self (st\<lparr>logits := anchor_dot_contrast st\<rparr>) = forward_reduce self st"
    by (intro forward_reduce_logits) simp
  then show ?thesis
    using st lg lp by (simp add: forward_unshifted_def forward_def)
next
  case False
  then obtain e where "forward_setup self features labels mask_arg = Inl e"
    using not_accepted by blast
  then show ?thesis
    by (simp add: forward_unshifted_def forward_def)
qed

theorem max_shift_invariance_witness:
  "forward_unshifted ex_loss ex_features (Some [0, 1]) None
     = forward ex_loss ex_features (Some [0, 1]) None"
  using max_shift_invariance[of ex_loss ex_features "Some [0, 1]" None] by simp

subsection \<open>Rows without positives\<close>

lemma length_mul2: "length (mul2 a b) = min (length a) (length b)"
  by (simp add: mul2_def)

lemma length_log_prob_of: "length (log_prob_of lg lm) = min (length lg) (length lm)"
  by (simp add: log_prob_of_rows)

lemma mean_log_prob_pos_nth:
  assumes "r < length m" and "r < length lp"
  shows "mean_log_prob_pos_of m lp ! r
       = fdiv (fsum (map2 (\<lambda>w x. fmul (Some w) x) (m ! r) (lp ! r))) (sum_list (m ! r))"
  using assms by (simp add: mean_log_prob_pos_of_def)

lemma fdiv_None [simp]: "fdiv None d = None"
  by (simp add: fdiv_def)

lemma reduce_ok:
  assumes acc: "accepted self f l m" and base: "base_temperature self \<noteq> 0"
  obtains st where "forward_setup self f l m = Inr st"
    and "length (mask_final st) = anchor_count st * batch_size st"
    and "length (log_prob_of (logits st) (logits_mask st)) = anchor_count st * batch_size st"
    and "forward self f l m
         = Inr (fdiv (fsum (map (fmul (Some (- (temperature self / base_temperature self))))
                  (mean_log_prob_pos_of (mask_final st)
                     (log_prob_of (logits st) (logits_mask st)))))
                (real (anchor_count st * batch_size st)))"
proof -
  from setup_ok[OF acc] obtain st where
    st: "forward_setup self f l m = Inr st"
    and B: "batch_size st = shape f ! 0"
    and rm: "resolve_mask (shape f ! 0) l m = Inr (mask_pretile st)"
    and tiled: "mask_tiled st = torch_repeat (mask_pretile st) (anchor_count st) (contrast_count st)"
    and lm: "logits_mask st
        = map (\<lambda>i. (replicate (contrast_count st * batch_size st) 1)[i := 0])
            [0..<anchor_count st * batch_size st]"
    and mf: "mask_final st = mul2 (mask_tiled st) (logits_mask st)"
    and len: "length (anchor_dot_contrast st) = anchor_count st * batch_size st"
    and mx: "logits_max st = map row_max (anchor_dot_contrast st)"
    and lg: "logits st = sub_keepdim (anchor_dot_contrast st) (logits_max st)"
    by blast
  define k where "k = anchor_count st * batch_size st"
  have len_lm: "length (logits_mask st) = k"
    by (simp add: lm k_def)
  have "length (mask_tiled st) = anchor_count st * shape f ! 0"
    unfolding tiled using resolve_mask_shape[OF rm] by (rule repeat_shape(1))
  then have len_mf: "length (mask_final st) = k"
    by (simp add: mf length_mul2 len_lm k_def B)
  have "length (logits st) = k"
    by (simp add: lg mx sub_keepdim_row_max len k_def)
  then have len_lp: "length (log_prob_of (logits st) (logits_mask st)) = k"
    by (simp add: length_log_prob_of len_lm)
  have len_mean: "length (mean_log_prob_pos_of (mask_final st)
      (log_prob_of (logits st) (logits_mask st))) = k"
    by (simp add: mean_log_prob_pos_of_def len_mf len_lp)
  have "forward self f l m
         = Inr (fdiv (fsum (map (fmul (Some (- (temperature self / base_temperature self))))
                  (mean_log_prob_pos_of (mask_final st)
                     (log_prob_of (logits st) (logits_mask st)))))
                (real k))"
    using base len_mean
    by (simp add: forward_def st forward_reduce_def Let_def k_def)
  with st len_mf len_lp that show ?thesis
    unfolding k_def by blast
qed

lemma sum_list_pos:
  fixes ws :: "real list"
  assumes "\<forall>w\<in>set ws. 0 \<le> w" and "\<exists>w\<in>set ws. 0 < w"
  shows "0 < sum_list ws"
proof -
  have "0 \<le> sum_list ws"
    using assms(1) by (simp add: sum_list_nonneg)
  moreover from assms(2) obtain w where "w \<in> set ws" "w \<noteq> 0" by auto
  then have "sum_list ws \<noteq> 0"
    using assms(1) by (auto simp: sum_list_nonneg_eq_0_iff)
  ultimately show ?thesis by simp
qed

lemma setup_facts:
  assumes st: "forward_setup self f l m = Inr st"
  shows "batch_size st = shape f ! 0"
    and "contrast_count st = shape f ! 1"
    and "anchor_count st = (if contrast_mode self = ''one'' then 1 else shape f ! 1)"
    and "resolve_mask (shape f ! 0) l m = Inr (mask_pretile st)"
    and "mask_tiled st = torch_repeat (mask_pretile st) (anchor_count st) (contrast_count st)"
    and "logits_mask st
        = map (\<lambda>i. (replicate (contrast_count st * batch_size st) 1)[i := 0])
            [0..<anchor_count st * batch_size st]"
    and "mask_final st = mul2 (mask_tiled st) (logits_mask st)"
    and "length (anchor_dot_contrast st) = anchor_count st * batch_size st"
    and "\<forall>row\<in>set (anchor_dot_contrast st). length row = contrast_count st * batch_size st"
    and "logits_max st = map row_max (anchor_dot_contrast st)"
    and "logits st = sub_keepdim (anchor_dot_contrast st) (logits_max st)"
    and "\<exists>products. anchor_dot_contrast st = torch_div products (temperature self)"
proof -
  from st have "accepted self f l m" by (rule setup_Inr_accepted)
  from setup_ok[OF this] obtain st' where st': "forward_setup self f l m = Inr st'"
    and facts: "batch_size st' = shape f ! 0"
      "contrast_count st' = shape f ! 1"
      "anchor_count st' = (if contrast_mode self = ''one'' then 1 else shape f ! 1)"
      "resolve_mask (shape f ! 0) l m = Inr (mask_pretile st')"
      "mask_tiled st' = torch_repeat (mask_pretile st') (anchor_count st') (contrast_count st')"
      "logits_mask st'
        = map (\<lambda>i. (replicate (contrast_count st' * batch_size st') 1)[i := 0])
            [0..<anchor_count st' * batch_size st']"
      "mask_final st' = mul2 (mask_tiled st') (logits_mask st')"
      "length (anchor_dot_contrast st') = anchor_count st' * batch_size st'"
      "\<forall>row\<in>set (anchor_dot_contrast st'). length row = contrast_count st' * batch_size st'"
      "logits_max st' = map row_max (anchor_dot_contrast st')"
      "logits st' = sub_keepdim (anchor_dot_contrast st') (logits_max st')"
      "\<exists>products. anchor_dot_contrast st' = torch_div products (temperature self)"
    by blast
  from st st' have eq: "st' = st" by simp
  show "batch_size st = shape f ! 0"
    and "contrast_count st = shape f ! 1"
    and "anchor_count st = (if contrast_mode self = ''one'' then 1 else shape f ! 1)"
    and "resolve_mask (shape f ! 0) l m = Inr (mask_pretile st)"
    and "mask_tiled st = torch_repeat (mask_pretile st) (anchor_count st) (contrast_count st)"
    and "logits_mask st
        = map (\<lambda>i. (replicate (contrast_count st * batch_size st) 1)[i := 0])
            [0..<anchor_count st * batch_size st]"
    and "mask_final st = mul2 (mask_tiled st) (logits_mask st)"
    and "length (anchor_dot_contrast st) = anchor_count st * batch_size st"
    and "\<forall>row\<in>set (anchor_dot_contrast st). length row = contrast_count st * batch_size st"
    and "logits_max st = map row_max (anchor_dot_contrast st)"
    and "logits st = sub_keepdim (anchor_dot_contrast st) (logits_max st)"
    and "\<exists>products. anchor_dot_contrast st = torch_div products (temperature self)"
    using facts unfolding eq by -
qed

lemma ex_single_view_accepted:
  assumes "contrast_mode self = ''all''"
  shows "accepted self ex_single_view None None"
  using assms by (simp add: accepted_def ex_flattens resolves_def) (simp add: ex_single_view_def)

lemma ex_single_view_mask:
  assumes st: "forward_setup self ex_single_view None None = Inr st"
    and mode: "contrast_mode self = ''all''"
  shows "anchor_count st * batch_size st = 2" and "mask_final st = [[0, 0], [0, 0]]"
proof -
  note facts = setup_facts[OF st]
  have dims: "batch_size st = 2" "contrast_count st = 1" "anchor_count st = 1"
    using facts(1,2,3) mode by (simp_all add: ex_single_view_def)
  from facts(4) have pre: "mask_pretile st = [[1, 0], [0, 1]]"
    by (simp add: resolve_mask_def ex_single_view_def torch_eye_def upt_rec numeral_2_eq_2)
  have tiled: "mask_tiled st = [[1, 0], [0, 1]]"
    by (simp add: facts(5) dims pre torch_repeat_def)
  have lm: "logits_mask st = [[0, 1], [1, 0]]"
    by (simp add: facts(6) dims upt_rec numeral_2_eq_2)
  show "anchor_count st * batch_size st = 2"
    by (simp add: dims)
  show "mask_final st = [[0, 0], [0, 0]]"
    by (simp add: facts(7) tiled lm mul2_def)
qed

lemma ex_features_mask:
  assumes st: "forward_setup ex_loss ex_features (Some [0, 1]) None = Inr st"
  shows "anchor_count st * batch_size st = 4" and "mask_final st ! 0 = [0, 0, 1, 0]"
proof -
  note facts = setup_facts[OF st]
  have dims: "batch_size st = 2" "contrast_count st = 2" "anchor_count st = 2"
    using facts(1,2,3) by (simp_all add: ex_features_def ex_loss_def)
  from facts(4) have pre: "mask_pretile st = [[1, 0], [0, 1]]"
    by (simp add: resolve_mask_def ex_features_def torch_eq_outer_def)
  have tiled: "mask_tiled st = [[1, 0, 1, 0], [0, 1, 0, 1], [1, 0, 1, 0], [0, 1, 0, 1]]"
    by (simp add: facts(5) dims pre torch_repeat_def numeral_2_eq_2)
  have lm: "logits_mask st ! 0 = [0, 1, 1, 1]"
    by (simp add: facts(6) dims upt_rec numeral_2_eq_2 numeral_3_eq_3 eval_nat_numeral)
  have "length (logits_mask st) = 4"
    by (simp add: facts(6) dims)
  then show "mask_final st ! 0 = [0, 0, 1, 0]"
    using lm by (simp add: facts(7) tiled mul2_def)
  show "anchor_count st * batch_size st = 4"
    by (simp add: dims)
qed

lemma zero_base_temperature_raises:
  assumes "accepted self f l m" and "base_temperature self = 0"
  shows "forward self f l m = Inl ZeroDivisionError"
proof -
  from setup_ok[OF assms(1)] obtain st where "forward_setup self f l m = Inr st"
    by blast
  then show ?thesis
    using assms(2) by (simp add: forward_def forward_reduce_def)
qed

text \<open>
  Claim C4. Take a call that gets past the checks, in a configuration the specification
  allows: the base temperature is not 0 (otherwise the float division of line 95 raises
  on every call, see \<open>zero_base_temperature_raises\<close>). Then \<^verbatim>\<open>forward\<close> returns a loss
  and raises nothing, whatever the row sums of the tiled, self-excluded mask are. For a
  row whose sum is 0 the division of line 92 gives a non-finite value, and the loss is
  non-finite. For a row of non-negative weights with at least one positive weight the
  divisor is not 0, and the value of line 92 is the weighted sum of the
  log-probabilities divided by that divisor.
\<close>

theorem zero_positive_row:
  assumes "accepted self features labels mask_arg" and "base_temperature self \<noteq> 0"
  shows "\<exists>st loss. forward_setup self features labels mask_arg = Inr st
    \<and> forward self features labels mask_arg = Inr loss
    \<and> length (mask_final st) = anchor_count st * batch_size st
    \<and> (\<forall>r<anchor_count st * batch_size st.
          sum_list (mask_final st ! r) = 0 \<longrightarrow>
            mean_log_prob_pos_of (mask_final st) (log_prob_of (logits st) (logits_mask st)) ! r
              = None
            \<and> loss = None)
    \<and> (\<forall>r<anchor_count st * batch_size st.
          (\<forall>w\<in>set (mask_final st ! r). 0 \<le> w) \<and> (\<exists>w\<in>set (mask_final st ! r). 0 < w) \<longrightarrow>
            sum_list (mask_final st ! r) \<noteq> 0
            \<and> mean_log_prob_pos_of (mask_final st) (log_prob_of (logits st) (logits_mask st)) ! r
                = map_option (\<lambda>s. s / sum_list (mask_final st ! r))
                    (fsum (map2 (\<lambda>w x. fmul (Some w) x) (mask_final st ! r)
                             (log_prob_of (logits st) (logits_mask st) ! r))))"
proof -
  from assms obtain st where
    st: "forward_setup self features labels mask_arg = Inr st"
    and len_mf: "length (mask_final st) = anchor_count st * batch_size st"
    and len_lp: "length (log_prob_of (logits st) (logits_mask st)) = anchor_count st * batch_size st"
    and fw: "forward self features labels mask_arg
         = Inr (fdiv (fsum (map (fmul (Some (- (temperature self / base_temperature self))))
                  (mean_log_prob_pos_of (mask_final st)
                     (log_prob_of (logits st) (logits_mask st)))))
                (real (anchor_count st * batch_size st)))"
    by (rule reduce_ok)
  define k where "k = anchor_count st * batch_size st"
  define lp where "lp = log_prob_of (logits st) (logits_mask st)"
  define mean where "mean = mean_log_prob_pos_of (mask_final st) lp"
  define loss where "loss = fdiv (fsum (map (fmul (Some (- (temperature self / base_temperature self))))
                  mean)) (real k)"
  have nth: "mean ! r = fdiv (fsum (map2 (\<lambda>w x. fmul (Some w) x) (mask_final st ! r) (lp ! r)))
                          (sum_list (mask_final st ! r))" if "r < k" for r
    unfolding mean_def using that len_mf len_lp
    by (intro mean_log_prob_pos_nth) (simp_all add: k_def lp_def)
  have len_mean: "length mean = k"
    by (simp add: mean_def mean_log_prob_pos_of_def len_mf len_lp k_def lp_def)
  have zero: "mean ! r = None \<and> loss = None" if "r < k" "sum_list (mask_final st ! r) = 0" for r
  proof -
    have m: "mean ! r = None"
      using that by (simp add: nth fdiv_def)
    have "map (fmul (Some (- (temperature self / base_temperature self)))) mean ! r = None"
      using that(1) len_mean by (simp add: m fmul_def)
    moreover have "r < length (map (fmul (Some (- (temperature self / base_temperature self)))) mean)"
      using that(1) len_mean by simp
    ultimately have "None \<in> set (map (fmul (Some (- (temperature self / base_temperature self)))) mean)"
      by (metis nth_mem)
    then have "fsum (map (fmul (Some (- (temperature self / base_temperature self)))) mean) = None"
      by (rule fsum_None)
    then show ?thesis using m by (simp add: loss_def)
  qed
  have pos: "sum_list (mask_final st ! r) \<noteq> 0
      \<and> mean ! r = map_option (\<lambda>s. s / sum_list (mask_final st ! r))
                    (fsum (map2 (\<lambda>w x. fmul (Some w) x) (mask_final st ! r) (lp ! r)))"
    if "r < k" "\<forall>w\<in>set (mask_final st ! r). 0 \<le> w" "\<exists>w\<in>set (mask_final st ! r). 0 < w" for r
  proof -
    from that(2,3) have "0 < sum_list (mask_final st ! r)" by (rule sum_list_pos)
    then show ?thesis using that(1) by (simp add: nth fdiv_def)
  qed
  have "forward self features labels mask_arg = Inr loss"
    by (simp add: fw loss_def mean_def lp_def k_def)
  with st len_mf zero pos show ?thesis
    unfolding k_def mean_def lp_def by blast
qed

theorem zero_positive_row_witness:
  "forward ex_loss ex_single_view None None = Inr None
   \<and> (\<exists>st. forward_setup ex_loss ex_features (Some [0, 1]) None = Inr st
        \<and> mask_final st ! 0 = [0, 0, 1, 0]
        \<and> sum_list (mask_final st ! 0) \<noteq> 0)"
proof -
  have mode: "contrast_mode ex_loss = ''all''" and base: "base_temperature ex_loss \<noteq> 0"
    by (simp_all add: ex_loss_def)
  have "forward ex_loss ex_single_view None None = Inr None"
  proof -
    from zero_positive_row[OF ex_single_view_accepted[OF mode] base] obtain st loss where
      st: "forward_setup ex_loss ex_single_view None None = Inr st"
      and fw: "forward ex_loss ex_single_view None None = Inr loss"
      and zero: "\<forall>r<anchor_count st * batch_size st.
          sum_list (mask_final st ! r) = 0 \<longrightarrow>
            mean_log_prob_pos_of (mask_final st) (log_prob_of (logits st) (logits_mask st)) ! r
              = None
            \<and> loss = None"
      by blast
    note m = ex_single_view_mask[OF st mode]
    have "0 < anchor_count st * batch_size st" and "sum_list (mask_final st ! 0) = 0"
      by (simp_all add: m)
    with zero have "loss = None"
      by blast
    with fw show ?thesis by simp
  qed
  moreover have "\<exists>st. forward_setup ex_loss ex_features (Some [0, 1]) None = Inr st
        \<and> mask_final st ! 0 = [0, 0, 1, 0]
        \<and> sum_list (mask_final st ! 0) \<noteq> 0"
  proof -
    have "accepted ex_loss ex_features (Some [0, 1]) None"
      by (simp add: accepted_def ex_flattens resolves_def) (simp add: ex_loss_def ex_features_def)
    from zero_positive_row[OF this base] obtain st where
      st: "forward_setup ex_loss ex_features (Some [0, 1]) None = Inr st"
      and pos: "\<forall>r<anchor_count st * batch_size st.
          (\<forall>w\<in>set (mask_final st ! r). 0 \<le> w) \<and> (\<exists>w\<in>set (mask_final st ! r). 0 < w) \<longrightarrow>
            sum_list (mask_final st ! r) \<noteq> 0
            \<and> mean_log_prob_pos_of (mask_final st) (log_prob_of (logits st) (logits_mask st)) ! r
                = map_option (\<lambda>s. s / sum_list (mask_final st ! r))
                    (fsum (map2 (\<lambda>w x. fmul (Some w) x) (mask_final st ! r)
                             (log_prob_of (logits st) (logits_mask st) ! r)))"
      by blast
    note m = ex_features_mask[OF st]
    have "(\<forall>w\<in>set (mask_final st ! 0). 0 \<le> w) \<and> (\<exists>w\<in>set (mask_final st ! 0). 0 < w)"
      by (simp add: m(2))
    moreover have "0 < anchor_count st * batch_size st"
      by (simp add: m(1))
    ultimately have "sum_list (mask_final st ! 0) \<noteq> 0"
      using pos by blast
    with st m(2) show ?thesis by blast
  qed
  ultimately show ?thesis by blast
qed

end
